theory Spec2Isabelle
  imports Complex_Main
begin

section \<open>Numbers and the engine's arithmetic\<close>

text \<open>
  The scene of \<^verbatim>\<open>src/scenes/MainScene.ts\<close> is embedded as a record of its fields and one
  function per method. JavaScript numbers are taken exactly: coordinates, speeds and times
  are reals, the counters (score, level, streak), to which the code only ever adds whole
  numbers, are integers. The rounding of IEEE doubles is outside the model.

  Three functions of the Phaser library are used by the scene. They are written as the
  library defines them: \<^verbatim>\<open>Clamp(v, min, max) = Math.max(min, Math.min(max, v))\<close>,
  \<^verbatim>\<open>Linear(p0, p1, t) = (p1 - p0) * t + p0\<close> and
  \<^verbatim>\<open>Between(min, max) = Math.floor(Math.random() * (max - min + 1) + min)\<close>.
  A draw of \<^verbatim>\<open>Math.random()\<close> is an argument of the function that makes it.
\<close>

definition Clamp :: "real \<Rightarrow> real \<Rightarrow> real \<Rightarrow> real" where
  "Clamp v lo hi = max lo (min hi v)"

definition Linear :: "real \<Rightarrow> real \<Rightarrow> real \<Rightarrow> real" where
  "Linear p0 p1 t = (p1 - p0) * t + p0"

definition Between :: "real \<Rightarrow> real \<Rightarrow> real \<Rightarrow> real" where
  "Between lo hi rnd = of_int \<lfloor>rnd * (hi - lo + 1) + lo\<rfloor>"

text \<open>The remainder operator \<^verbatim>\<open>%\<close> of JavaScript on whole numbers: the sign is the dividend's.\<close>

definition js_rem :: "int \<Rightarrow> int \<Rightarrow> int" where
  "js_rem a b = sgn a * (\<bar>a\<bar> mod \<bar>b\<bar>)"

section \<open>Data\<close>

datatype error = TypeError

datatype blockType = standard | wide | narrow | fast

record BlockConfig =
  cfg_width :: real
  cfg_height :: real
  cfg_color :: nat
  cfg_speed :: real

text \<open>A \<^verbatim>\<open>Phaser.GameObjects.Rectangle\<close>: position, size and fill colour.\<close>

record Rectangle =
  rect_x :: real
  rect_y :: real
  rect_width :: real
  rect_height :: real
  rect_fill :: nat

text \<open>A \<^verbatim>\<open>Phaser.GameObjects.Line\<close>, as far as \<^verbatim>\<open>update\<close> writes it.\<close>

record Line =
  line_x1 :: real
  line_y1 :: real
  line_x2 :: real
  line_y2 :: real
  line_color :: nat
  line_visible :: bool

text \<open>
  The fields of the scene. Rectangles are objects: the current block and the entries of
  \<^verbatim>\<open>stackedBlocks\<close> are references into \<open>heap\<close>, so that \<^verbatim>\<open>stackedBlocks.push(this.currentBlock)\<close>
  shares the object, as it does in the source. \<open>nextObj\<close> is the next free reference.
  \<open>pendingSpawns\<close> counts the 50 ms timers of \<^verbatim>\<open>placeBlock\<close> that have not fired yet, and
  \<open>localStorage\<close> is the high score stored under the key \<^verbatim>\<open>cityBloxxState\<close>, if any.
  Texts, shadows, glow, tweens, particles and the camera are presentation and are left out.
\<close>

record MainScene =
  currentBlock :: "nat option"
  stackedBlocks :: "nat list"
  heap :: "nat \<Rightarrow> Rectangle"
  nextObj :: nat
  score :: int
  highScore :: int
  gameOver :: bool
  isPaused :: bool
  moveSpeed :: real
  gameWidth :: real
  gameHeight :: real
  level :: int
  placementGuide :: "Line option"
  baseY :: real
  perfectStreak :: int
  currentVelocity :: real
  lastFrameTime :: real
  pendingSpawns :: nat
  localStorage :: "int option"

section \<open>Constants\<close>

definition BLOCK_BASE_HEIGHT :: real where "BLOCK_BASE_HEIGHT = 50"
definition MAX_MULTIPLIER :: int where "MAX_MULTIPLIER = 5"
definition BLOCK_ACCELERATION :: real where "BLOCK_ACCELERATION = 0.2"
definition MAX_BLOCK_SPEED :: real where "MAX_BLOCK_SPEED = 8"
definition BLOCK_SNAP_THRESHOLD :: real where "BLOCK_SNAP_THRESHOLD = 10"
definition BLOCK_BOUNCE_ELASTICITY :: real where "BLOCK_BOUNCE_ELASTICITY = 0.8"
definition GROUND_OFFSET :: real where "GROUND_OFFSET = 100"
definition MIN_BLOCKS_FOR_CAMERA :: nat where "MIN_BLOCKS_FOR_CAMERA = 8"

fun COLORS :: "blockType \<Rightarrow> nat" where
  "COLORS standard = 5025616"
| "COLORS wide = 2201331"
| "COLORS narrow = 16728193"
| "COLORS fast = 16761095"

definition blockTypes :: "BlockConfig list" where
  "blockTypes =
    [\<lparr>cfg_width = 100, cfg_height = 50, cfg_color = COLORS standard, cfg_speed = 2\<rparr>,
     \<lparr>cfg_width = 150, cfg_height = 50, cfg_color = COLORS wide, cfg_speed = 2.5\<rparr>,
     \<lparr>cfg_width = 80, cfg_height = 50, cfg_color = COLORS narrow, cfg_speed = 3\<rparr>,
     \<lparr>cfg_width = 100, cfg_height = 50, cfg_color = COLORS fast, cfg_speed = 3.5\<rparr>]"

text \<open>The size of the canvas, from the game configuration (\<^verbatim>\<open>width: 800, height: 600\<close>).\<close>

definition canvas_width :: real where "canvas_width = 800"
definition canvas_height :: real where "canvas_height = 600"

section \<open>The scene's methods\<close>

text \<open>The field initialisers and the constructor.\<close>

definition constructor :: MainScene where
  "constructor =
    \<lparr>currentBlock = None, stackedBlocks = [],
     heap = (\<lambda>_. \<lparr>rect_x = 0, rect_y = 0, rect_width = 0, rect_height = 0, rect_fill = 0\<rparr>),
     nextObj = 0, score = 0, highScore = 0, gameOver = False, isPaused = False,
     moveSpeed = 2, gameWidth = 800, gameHeight = 600, level = 1, placementGuide = None,
     baseY = 600, perfectStreak = 0, currentVelocity = 0, lastFrameTime = 0,
     pendingSpawns = 0, localStorage = None\<rparr>"

text \<open>
  \<^verbatim>\<open>init\<close>: the fields it assigns, and the high score read from storage. An absent item
  and a read that throws both leave \<open>highScore\<close> as it is. The scene's shutdown, which
  precedes \<^verbatim>\<open>init\<close> on a restart, drops the scene's timers.
\<close>

definition init :: "MainScene \<Rightarrow> MainScene" where
  "init s =
    (let s1 = s\<lparr>score := 0, level := 1, gameOver := False, isPaused := False,
                 stackedBlocks := [], moveSpeed := 2\<rparr>
     in case localStorage s1 of
          Some saved \<Rightarrow> s1\<lparr>highScore := saved\<rparr>
        | None \<Rightarrow> s1)"

text \<open>
  \<^verbatim>\<open>getCurrentBlockConfig\<close>. \<open>div\<close> on integers is \<^verbatim>\<open>Math.floor\<close> of the quotient. A
  negative index reads \<^verbatim>\<open>undefined\<close> from the array, and \<^verbatim>\<open>baseConfig.speed\<close> then throws.
\<close>

definition getCurrentBlockConfig :: "int \<Rightarrow> BlockConfig option" where
  "getCurrentBlockConfig lvl =
    (let index = min (js_rem ((lvl - 1) div 3) (int (length blockTypes)))
                     (int (length blockTypes) - 1)
     in if 0 \<le> index
        then (let baseConfig = blockTypes ! nat index;
                  speedIncrease = min (real_of_int (lvl - 1) * 0.1) 2
              in Some (baseConfig\<lparr>cfg_speed := cfg_speed baseConfig + speedIncrease\<rparr>))
        else None)"

definition getBlockType :: "BlockConfig \<Rightarrow> blockType" where
  "getBlockType config =
    (if cfg_width config > 100 then wide
     else if cfg_width config < 100 then narrow
     else if cfg_speed config > 2.5 then fast
     else standard)"

definition getColorForProgress :: "real \<Rightarrow> nat" where
  "getColorForProgress progress =
    (if progress > 0.9 then 65280
     else if progress > 0.6 then 16776960
     else 16711680)"

definition togglePause :: "MainScene \<Rightarrow> MainScene" where
  "togglePause s = s\<lparr>isPaused := \<not> isPaused s\<rparr>"

text \<open>
  \<^verbatim>\<open>createNewBlock\<close>. \<open>rndX\<close> is the draw inside \<^verbatim>\<open>Phaser.Math.Between\<close>, \<open>rndDir\<close> the draw
  that chooses the direction.
\<close>

definition createNewBlock :: "real \<Rightarrow> real \<Rightarrow> MainScene \<Rightarrow> error + MainScene" where
  "createNewBlock rndX rndDir s =
    (case getCurrentBlockConfig (level s) of
       None \<Rightarrow> Inl TypeError
     | Some config \<Rightarrow>
        (let yPos = (if length (stackedBlocks s) > 0
                     then rect_y (heap s (last (stackedBlocks s))) - BLOCK_BASE_HEIGHT
                     else baseY s);
             margin = cfg_width config / 2;
             randomX = Between margin (gameWidth s - margin) rndX;
             block = \<lparr>rect_x = randomX, rect_y = yPos, rect_width = cfg_width config,
                      rect_height = cfg_height config,
                      rect_fill = COLORS (getBlockType config)\<rparr>
         in Inr (s\<lparr>heap := (heap s)(nextObj s := block),
                   currentBlock := Some (nextObj s),
                   nextObj := Suc (nextObj s),
                   moveSpeed := cfg_speed config * (if rndDir < 0.5 then 1 else - 1)\<rparr>)))"

text \<open>\<^verbatim>\<open>create\<close>: the size of the canvas, the base line, and the first block.\<close>

definition create :: "real \<Rightarrow> real \<Rightarrow> real \<Rightarrow> real \<Rightarrow> MainScene \<Rightarrow> error + MainScene" where
  "create canvasW canvasH rndX rndDir s =
    createNewBlock rndX rndDir
      (s\<lparr>gameWidth := canvasW, gameHeight := canvasH, baseY := canvasH - GROUND_OFFSET\<rparr>)"

text \<open>\<^verbatim>\<open>this.scene.restart()\<close>: the same scene object runs \<^verbatim>\<open>init\<close> and \<^verbatim>\<open>create\<close> again.\<close>

definition restart :: "real \<Rightarrow> real \<Rightarrow> MainScene \<Rightarrow> error + MainScene" where
  "restart rndX rndDir s =
    create canvas_width canvas_height rndX rndDir (init (s\<lparr>pendingSpawns := 0\<rparr>))"

text \<open>
  \<^verbatim>\<open>update\<close>, in the order of the source: the frame's \<open>deltaTime\<close>, acceleration, clamp and
  move (\<open>moveBlock\<close>), the bounce off the edges (\<open>bounce\<close>), and the block under
  \<^verbatim>\<open>if (this.placementGuide && this.stackedBlocks.length > 0)\<close> (\<open>updateGuide\<close>).
\<close>

definition deltaTime :: "real \<Rightarrow> MainScene \<Rightarrow> real" where
  "deltaTime time s =
    (if lastFrameTime s \<noteq> 0 then (time - lastFrameTime s) / 16.667 else 1)"

definition moveBlock :: "real \<Rightarrow> nat \<Rightarrow> MainScene \<Rightarrow> MainScene" where
  "moveBlock dt a s =
    (let v = Clamp (currentVelocity s + moveSpeed s * BLOCK_ACCELERATION * dt)
                   (- MAX_BLOCK_SPEED) MAX_BLOCK_SPEED;
         b = heap s a
     in s\<lparr>currentVelocity := v,
          heap := (heap s)(a := b\<lparr>rect_x := rect_x b + v * dt\<rparr>)\<rparr>)"

definition bounce :: "BlockConfig \<Rightarrow> nat \<Rightarrow> MainScene \<Rightarrow> MainScene" where
  "bounce config a s =
    (let margin = cfg_width config / 2;
         b = heap s a
     in if rect_x b \<ge> gameWidth s - margin
        then s\<lparr>heap := (heap s)(a := b\<lparr>rect_x := gameWidth s - margin\<rparr>),
               currentVelocity := currentVelocity s * (- BLOCK_BOUNCE_ELASTICITY),
               moveSpeed := moveSpeed s * (- 1)\<rparr>
        else if rect_x b \<le> margin
        then s\<lparr>heap := (heap s)(a := b\<lparr>rect_x := margin\<rparr>),
               currentVelocity := currentVelocity s * (- BLOCK_BOUNCE_ELASTICITY),
               moveSpeed := moveSpeed s * (- 1)\<rparr>
        else s)"

definition updateGuide :: "real \<Rightarrow> BlockConfig \<Rightarrow> nat \<Rightarrow> MainScene \<Rightarrow> MainScene" where
  "updateGuide dt config a s =
    (case placementGuide s of
       None \<Rightarrow> s
     | Some guide \<Rightarrow>
        if length (stackedBlocks s) > 0
        then (let lastBlock = heap s (last (stackedBlocks s));
                  cur = heap s a;
                  distance = \<bar>rect_x lastBlock - rect_x cur\<bar>;
                  maxDistance = cfg_width config * 0.5;
                  progress = 1 - (distance / maxDistance);
                  s1 = (if distance < BLOCK_SNAP_THRESHOLD
                        then (let snapStrength = 1 - (distance / BLOCK_SNAP_THRESHOLD)
                              in s\<lparr>heap := (heap s)(a := cur\<lparr>rect_x :=
                                     Linear (rect_x cur) (rect_x lastBlock)
                                            (snapStrength * 0.1 * dt)\<rparr>)\<rparr>)
                        else s);
                  curX = rect_x (heap s1 a)
              in s1\<lparr>placementGuide := Some
                     \<lparr>line_x1 = curX, line_y1 = 0, line_x2 = curX, line_y2 = gameHeight s1,
                      line_color = getColorForProgress progress, line_visible = True\<rparr>\<rparr>)
        else s)"

definition update :: "real \<Rightarrow> MainScene \<Rightarrow> error + MainScene" where
  "update time s =
    (case currentBlock s of
       None \<Rightarrow> Inr s
     | Some a \<Rightarrow>
        if gameOver s \<or> isPaused s then Inr s
        else (let dt = deltaTime time s;
                  s1 = moveBlock dt a (s\<lparr>lastFrameTime := time\<rparr>)
              in case getCurrentBlockConfig (level s1) of
                   None \<Rightarrow> Inl TypeError
                 | Some config \<Rightarrow> Inr (updateGuide dt config a (bounce config a s1))))"

text \<open>The state changes of \<^verbatim>\<open>handleGameOver\<close> and \<^verbatim>\<open>handlePerfectPlacement\<close>.\<close>

definition handleGameOver :: "MainScene \<Rightarrow> MainScene" where
  "handleGameOver s = s\<lparr>gameOver := True\<rparr>"

definition handlePerfectPlacement :: "MainScene \<Rightarrow> MainScene" where
  "handlePerfectPlacement s =
    (let streak = perfectStreak s + 1;
         multiplier = min streak MAX_MULTIPLIER;
         bonusPoints = 50 * multiplier
     in s\<lparr>perfectStreak := streak, score := score s + bonusPoints\<rparr>)"

text \<open>
  \<^verbatim>\<open>updateHighScore\<close> and \<^verbatim>\<open>updateScore\<close>. A write to storage that throws is caught and
  logged by the source; the model takes the write to succeed. No method of the scene
  calls \<^verbatim>\<open>updateScore\<close>, and \<^verbatim>\<open>updateHighScore\<close> is called by \<^verbatim>\<open>updateScore\<close> only.
\<close>

definition updateHighScore :: "MainScene \<Rightarrow> MainScene" where
  "updateHighScore s =
    (if score s > highScore s
     then s\<lparr>highScore := score s, localStorage := Some (score s)\<rparr>
     else s)"

definition updateScore :: "MainScene \<Rightarrow> MainScene" where
  "updateScore s =
    (let s1 = updateHighScore (s\<lparr>score := score s + 10\<rparr>)
     in if int (length (stackedBlocks s1)) mod 5 = 0
        then s1\<lparr>level := level s1 + 1\<rparr>
        else s1)"

text \<open>
  \<^verbatim>\<open>placeBlock\<close>, up to its \<^verbatim>\<open>await\<close>. \<open>pushBlock\<close> is the part after the alignment check:
  the push, and then either the next block at once or, from eight stacked blocks on, a
  50 ms timer whose firing (\<open>spawnAfterDelay\<close>) creates the next block.
\<close>

definition pushBlock :: "real \<Rightarrow> real \<Rightarrow> nat \<Rightarrow> MainScene \<Rightarrow> error + MainScene" where
  "pushBlock rndX rndDir a s =
    (let s1 = s\<lparr>stackedBlocks := stackedBlocks s @ [a]\<rparr>
     in if length (stackedBlocks s1) \<ge> MIN_BLOCKS_FOR_CAMERA
        then Inr (s1\<lparr>pendingSpawns := Suc (pendingSpawns s1)\<rparr>)
        else createNewBlock rndX rndDir s1)"

definition placeBlock :: "real \<Rightarrow> real \<Rightarrow> MainScene \<Rightarrow> error + MainScene" where
  "placeBlock rndX rndDir s =
    (case currentBlock s of
       None \<Rightarrow> Inr s
     | Some a \<Rightarrow>
        if gameOver s \<or> isPaused s then Inr s
        else (case getCurrentBlockConfig (level s) of
                None \<Rightarrow> Inl TypeError
              | Some config \<Rightarrow>
                 if length (stackedBlocks s) > 0
                 then (let prevBlock = heap s (last (stackedBlocks s));
                           distance = \<bar>rect_x prevBlock - rect_x (heap s a)\<bar>
                       in if distance > cfg_width config * 0.5
                          then Inr (handleGameOver s)
                          else pushBlock rndX rndDir a
                                 (if distance < 5 then handlePerfectPlacement s else s))
                 else pushBlock rndX rndDir a s))"

definition spawnAfterDelay :: "real \<Rightarrow> real \<Rightarrow> MainScene \<Rightarrow> error + MainScene" where
  "spawnAfterDelay rndX rndDir s =
    createNewBlock rndX rndDir (s\<lparr>pendingSpawns := pendingSpawns s - 1\<rparr>)"

section \<open>The states a game can reach\<close>

text \<open>
  Phaser constructs the scene once and runs \<^verbatim>\<open>init\<close> and \<^verbatim>\<open>create\<close>. After that the scene
  changes by frame ticks, placement commits (pointer or space bar), the firing of a
  pending timer, the pause toggle, and a restart once the game is over.
\<close>

inductive reachable :: "MainScene \<Rightarrow> bool" where
  start: "\<lbrakk>0 \<le> rndX; rndX < 1; 0 \<le> rndDir; rndDir < 1;
           create canvas_width canvas_height rndX rndDir (init constructor) = Inr s\<rbrakk>
          \<Longrightarrow> reachable s"
| frame: "\<lbrakk>reachable s; update time s = Inr s'\<rbrakk> \<Longrightarrow> reachable s'"
| commit: "\<lbrakk>reachable s; 0 \<le> rndX; rndX < 1; 0 \<le> rndDir; rndDir < 1;
            placeBlock rndX rndDir s = Inr s'\<rbrakk> \<Longrightarrow> reachable s'"
| timer: "\<lbrakk>reachable s; pendingSpawns s > 0; 0 \<le> rndX; rndX < 1; 0 \<le> rndDir; rndDir < 1;
           spawnAfterDelay rndX rndDir s = Inr s'\<rbrakk> \<Longrightarrow> reachable s'"
| pause: "reachable s \<Longrightarrow> reachable (togglePause s)"
| again: "\<lbrakk>reachable s; gameOver s; 0 \<le> rndX; rndX < 1; 0 \<le> rndDir; rndDir < 1;
           restart rndX rndDir s = Inr s'\<rbrakk> \<Longrightarrow> reachable s'"

section \<open>Running a game\<close>

text \<open>
  The same events as a datatype, so that a concrete game can be run: \<open>play\<close> starts a
  new game and feeds it a list of events, stopping at the first exception.
\<close>

datatype event =
    Frame real
  | Commit real real
  | Timer real real
  | Pause
  | Restart real real

fun step :: "event \<Rightarrow> MainScene \<Rightarrow> error + MainScene" where
  "step (Frame time) s = update time s"
| "step (Commit rndX rndDir) s = placeBlock rndX rndDir s"
| "step (Timer rndX rndDir) s =
     (if pendingSpawns s > 0 then spawnAfterDelay rndX rndDir s else Inr s)"
| "step Pause s = Inr (togglePause s)"
| "step (Restart rndX rndDir) s = (if gameOver s then restart rndX rndDir s else Inr s)"

fun run :: "event list \<Rightarrow> MainScene \<Rightarrow> error + MainScene" where
  "run [] s = Inr s"
| "run (e # es) s = (case step e s of Inl err \<Rightarrow> Inl err | Inr s' \<Rightarrow> run es s')"

definition newGame :: "real \<Rightarrow> real \<Rightarrow> error + MainScene" where
  "newGame rndX rndDir = create canvas_width canvas_height rndX rndDir (init constructor)"

definition play :: "real \<Rightarrow> real \<Rightarrow> event list \<Rightarrow> error + MainScene" where
  "play rndX rndDir es = (case newGame rndX rndDir of Inl err \<Rightarrow> Inl err | Inr s \<Rightarrow> run es s)"

definition observe :: "(MainScene \<Rightarrow> 'a) \<Rightarrow> error + MainScene \<Rightarrow> 'a option" where
  "observe f r = (case r of Inl err \<Rightarrow> None | Inr s \<Rightarrow> Some (f s))"

text \<open>
  The judgement that \<^verbatim>\<open>placeBlock\<close> makes inline, as a value: \<open>None\<close> when the commit is
  ignored or throws, otherwise the outcome in the order of the source's tests.
\<close>

datatype outcome = Miss | Ordinary | Perfect

definition judge :: "MainScene \<Rightarrow> outcome option" where
  "judge s =
    (case currentBlock s of
       None \<Rightarrow> None
     | Some a \<Rightarrow>
        if gameOver s \<or> isPaused s then None
        else (case getCurrentBlockConfig (level s) of
                None \<Rightarrow> None
              | Some config \<Rightarrow>
                 if length (stackedBlocks s) > 0
                 then (let prevBlock = heap s (last (stackedBlocks s));
                           distance = \<bar>rect_x prevBlock - rect_x (heap s a)\<bar>
                       in if distance > cfg_width config * 0.5 then Some Miss
                          else if distance < 5 then Some Perfect
                          else Some Ordinary)
                 else Some Ordinary))"

text \<open>
  The events of one game (no restart), the commits among them that are judged perfect, and
  the number of those along a run.
\<close>

fun in_game :: "event \<Rightarrow> bool" where
  "in_game (Restart rndX rndDir) = False"
| "in_game e = True"

fun perfect_commit :: "event \<Rightarrow> MainScene \<Rightarrow> bool" where
  "perfect_commit (Commit rndX rndDir) s = (judge s = Some Perfect)"
| "perfect_commit e s = False"

fun perfects :: "event list \<Rightarrow> MainScene \<Rightarrow> int" where
  "perfects [] s = 0"
| "perfects (e # es) s =
     (case step e s of
        Inl err \<Rightarrow> 0
      | Inr s' \<Rightarrow> (if perfect_commit e s then 1 else 0) + perfects es s')"

text \<open>
  Games used as concrete inputs below. Both blocks of \<open>game_one_block\<close> spawn at
  \<open>x = 400\<close> (the draw \<open>0.5\<close>); in \<open>game_far_block\<close> the second block spawns at \<open>x = 680\<close>
  (the draw \<open>0.9\<close>), 280 away from the first.
\<close>

definition game_one_block :: MainScene where
  "game_one_block = projr (play 0.5 0.3 [Commit 0.5 0.3])"

definition game_far_block :: MainScene where
  "game_far_block = projr (play 0.5 0.3 [Commit 0.9 0.3])"

text \<open>A new game before any event.\<close>

definition game_start :: MainScene where
  "game_start = projr (newGame 0.5 0.3)"

text \<open>
  What holds in every state a game can reach: there is no placement guide, the width is
  the canvas's, the level is 1, and the current block has the width of level 1.
\<close>

definition scene_inv :: "MainScene \<Rightarrow> bool" where
  "scene_inv s =
    (placementGuide s = None \<and> gameWidth s = canvas_width \<and> level s = 1
     \<and> (case currentBlock s of None \<Rightarrow> True | Some a \<Rightarrow> rect_width (heap s a) = 100))"

section \<open>Evaluation\<close>

lemmas scene_defs =
  Clamp_def Linear_def Between_def js_rem_def BLOCK_BASE_HEIGHT_def MAX_MULTIPLIER_def
  BLOCK_ACCELERATION_def MAX_BLOCK_SPEED_def BLOCK_SNAP_THRESHOLD_def
  BLOCK_BOUNCE_ELASTICITY_def GROUND_OFFSET_def MIN_BLOCKS_FOR_CAMERA_def blockTypes_def
  canvas_width_def canvas_height_def constructor_def init_def getCurrentBlockConfig_def
  getBlockType_def getColorForProgress_def togglePause_def createNewBlock_def create_def
  restart_def deltaTime_def moveBlock_def bounce_def updateGuide_def update_def
  handleGameOver_def handlePerfectPlacement_def updateHighScore_def updateScore_def
  pushBlock_def placeBlock_def spawnAfterDelay_def newGame_def play_def observe_def

lemma game_one_block_played: "play 0.5 0.3 [Commit 0.5 0.3] = Inr game_one_block"
  by (simp add: scene_defs game_one_block_def)

lemma game_far_block_played: "play 0.5 0.3 [Commit 0.9 0.3] = Inr game_far_block"
  by (simp add: scene_defs game_far_block_def)

lemma level_one_config:
  "getCurrentBlockConfig 1
     = Some \<lparr>cfg_width = 100, cfg_height = 50, cfg_color = 5025616, cfg_speed = 2\<rparr>"
  by (simp add: scene_defs)

text \<open>From level 1 on, which is where \<^verbatim>\<open>init\<close> starts, the configuration is defined.\<close>

lemma getCurrentBlockConfig_defined:
  assumes "1 \<le> lvl"
  shows "\<exists>config. getCurrentBlockConfig lvl = Some config"
proof -
  have "0 \<le> (lvl - 1) div 3" using assms by simp
  then have "0 \<le> js_rem ((lvl - 1) div 3) 4"
    by (simp add: js_rem_def sgn_if)
  then show ?thesis
    by (simp add: getCurrentBlockConfig_def blockTypes_def Let_def)
qed

section \<open>The parts of a placement\<close>

lemma pushBlock_effect:
  assumes "getCurrentBlockConfig (level s) = Some config"
  shows "\<exists>s'. pushBlock rndX rndDir a s = Inr s' \<and> stackedBlocks s' = stackedBlocks s @ [a]
           \<and> score s' = score s \<and> perfectStreak s' = perfectStreak s
           \<and> gameOver s' = gameOver s \<and> level s' = level s \<and> highScore s' = highScore s
           \<and> localStorage s' = localStorage s \<and> currentVelocity s' = currentVelocity s"
  using assms by (simp add: pushBlock_def createNewBlock_def Let_def)

lemma handlePerfectPlacement_effect:
  "perfectStreak (handlePerfectPlacement s) = perfectStreak s + 1
   \<and> score (handlePerfectPlacement s) = score s + 50 * min (perfectStreak s + 1) 5
   \<and> level (handlePerfectPlacement s) = level s
   \<and> stackedBlocks (handlePerfectPlacement s) = stackedBlocks s
   \<and> gameOver (handlePerfectPlacement s) = gameOver s
   \<and> highScore (handlePerfectPlacement s) = highScore s
   \<and> localStorage (handlePerfectPlacement s) = localStorage s
   \<and> currentVelocity (handlePerfectPlacement s) = currentVelocity s"
  by (simp add: handlePerfectPlacement_def MAX_MULTIPLIER_def Let_def)

text \<open>What the two score methods would do, were they called.\<close>

lemma updateScore_effect:
  "score (updateScore s) = score s + 10
   \<and> highScore (updateScore s) = max (highScore s) (score s + 10)
   \<and> level (updateScore s)
       = (if int (length (stackedBlocks s)) mod 5 = 0 then level s + 1 else level s)"
  by (simp add: updateScore_def updateHighScore_def Let_def)

section \<open>Scoring\<close>

text \<open>
  C1. Every successful placement adds a flat 10 points to the score. The source has this
  in \<^verbatim>\<open>updateScore\<close>, which \<^verbatim>\<open>placeBlock\<close> does not call: the first block of a new game
  is placed (the stack holds it, the game goes on) and the score is still 0.
\<close>

theorem C1_first_placement_scores_nothing:
  "observe (\<lambda>s. (stackedBlocks s, gameOver s, score s)) (play 0.5 0.3 [Commit 0.5 0.3])
     = Some ([0], False, 0)"
  by (simp add: scene_defs)

text \<open>
  C2. The level goes up by one when the stack size reaches a multiple of 5. The level-up
  is in \<^verbatim>\<open>updateScore\<close> too: after the fifth successful placement of a game the stack
  holds five blocks and the level is still 1.
\<close>

theorem C2_fifth_placement_keeps_level:
  "observe (\<lambda>s. (length (stackedBlocks s), gameOver s, level s))
     (play 0.5 0.3 [Commit 0.5 0.3, Commit 0.5 0.3, Commit 0.5 0.3, Commit 0.5 0.3,
                    Commit 0.5 0.3])
     = Some (5, False, 1)"
  by (simp add: scene_defs)

text \<open>
  C3. A placement that raises the score above the high score sets the high score and
  stores it. \<^verbatim>\<open>updateHighScore\<close> is reached through \<^verbatim>\<open>updateScore\<close> only: the second block
  of a new game, placed perfectly, brings the score to 50 while the high score stays 0
  and nothing is stored.
\<close>

theorem C3_high_score_not_raised:
  "observe (\<lambda>s. (score s, highScore s, localStorage s))
     (play 0.5 0.3 [Commit 0.5 0.3, Commit 0.5 0.3])
     = Some (50, 0, None)"
  by (simp add: scene_defs)

text \<open>
  C6. On a perfect placement (the stack is not empty, the block is no further than half
  its width from the top block, and closer than 5) the streak goes up by one and the
  score by 50 times the multiplier, the multiplier being the smaller of the new streak
  and 5.
\<close>

theorem C6_perfect_bonus:
  assumes "currentBlock s = Some a" and "\<not> gameOver s" and "\<not> isPaused s"
    and "getCurrentBlockConfig (level s) = Some config"
    and "stackedBlocks s \<noteq> []"
    and "distance = \<bar>rect_x (heap s (last (stackedBlocks s))) - rect_x (heap s a)\<bar>"
    and "\<not> distance > cfg_width config * 0.5" and "distance < 5"
  shows "\<exists>s'. placeBlock rndX rndDir s = Inr s'
           \<and> perfectStreak s' = perfectStreak s + 1
           \<and> score s' = score s + 50 * min (perfectStreak s') 5"
proof -
  let ?p = "handlePerfectPlacement s"
  have cfg: "getCurrentBlockConfig (level ?p) = Some config"
    using assms(4) by (simp add: handlePerfectPlacement_effect)
  from pushBlock_effect [OF cfg, of rndX rndDir a]
  obtain s' where s': "pushBlock rndX rndDir a ?p = Inr s'"
     "score s' = score ?p" "perfectStreak s' = perfectStreak ?p" by blast
  have "placeBlock rndX rndDir s = pushBlock rndX rndDir a ?p"
    using assms by (simp add: placeBlock_def Let_def)
  with s' show ?thesis by (simp add: handlePerfectPlacement_effect)
qed

theorem C6_perfect_bonus_witness:
  "currentBlock game_one_block = Some 1 \<and> \<not> gameOver game_one_block
   \<and> \<not> isPaused game_one_block \<and> stackedBlocks game_one_block = [0]
   \<and> \<bar>rect_x (heap game_one_block 0) - rect_x (heap game_one_block 1)\<bar> = 0
   \<and> (\<exists>s'. placeBlock 0.5 0.3 game_one_block = Inr s'
           \<and> perfectStreak s' = 1 \<and> score s' = 50)"
proof -
  have h: "currentBlock game_one_block = Some 1" "\<not> gameOver game_one_block"
    "\<not> isPaused game_one_block" "stackedBlocks game_one_block = [0]"
    "level game_one_block = 1" "perfectStreak game_one_block = 0" "score game_one_block = 0"
    "rect_x (heap game_one_block 0) = 400" "rect_x (heap game_one_block 1) = 400"
    by (simp_all add: scene_defs game_one_block_def)
  have c: "getCurrentBlockConfig (level game_one_block)
      = Some \<lparr>cfg_width = 100, cfg_height = 50, cfg_color = 5025616, cfg_speed = 2\<rparr>"
    by (simp add: h level_one_config)
  from C6_perfect_bonus [OF h(1) h(2) h(3) c, of 0 "0.5" "0.3"] h
  show ?thesis by auto
qed

section \<open>The placement judge\<close>

text \<open>
  C5. A placement commit while playing, with an active block whose width is that of the
  current level's configuration. On an empty stack the placement succeeds. Otherwise,
  with \<open>distance\<close> the horizontal distance between the active block and the top block:
  the game is over (miss) exactly if \<open>distance\<close> exceeds half the block's width; the
  placement is perfect (it succeeds and the streak goes up) exactly if it is no miss and
  \<open>distance < 5\<close>; it is ordinary (it succeeds and the streak stays) exactly if it is
  no miss and \<open>distance \<ge> 5\<close>. A placement that succeeds appends the block to the stack.
\<close>

theorem C5_placement_judge:
  assumes "currentBlock s = Some a" and "\<not> gameOver s" and "\<not> isPaused s"
    and "getCurrentBlockConfig (level s) = Some config"
    and "rect_width (heap s a) = cfg_width config"
    and "distance = \<bar>rect_x (heap s a) - rect_x (heap s (last (stackedBlocks s)))\<bar>"
  shows "\<exists>s'. placeBlock rndX rndDir s = Inr s' \<and>
          (if stackedBlocks s = []
           then \<not> gameOver s' \<and> stackedBlocks s' = [a] \<and> perfectStreak s' = perfectStreak s
           else (gameOver s' \<longleftrightarrow> distance > rect_width (heap s a) * 0.5)
              \<and> (\<not> gameOver s' \<and> perfectStreak s' = perfectStreak s + 1
                    \<longleftrightarrow> \<not> distance > rect_width (heap s a) * 0.5 \<and> distance < 5)
              \<and> (\<not> gameOver s' \<and> perfectStreak s' = perfectStreak s
                    \<longleftrightarrow> \<not> distance > rect_width (heap s a) * 0.5 \<and> \<not> distance < 5)
              \<and> stackedBlocks s'
                    = (if gameOver s' then stackedBlocks s else stackedBlocks s @ [a]))"
proof -
  let ?p = "handlePerfectPlacement s"
  have cfg: "getCurrentBlockConfig (level ?p) = Some config"
    using assms(4) by (simp add: handlePerfectPlacement_effect)
  from pushBlock_effect [OF cfg, of rndX rndDir a]
  obtain sp where sp: "pushBlock rndX rndDir a ?p = Inr sp"
     "stackedBlocks sp = stackedBlocks ?p @ [a]" "gameOver sp = gameOver ?p"
     "perfectStreak sp = perfectStreak ?p" by blast
  from pushBlock_effect [OF assms(4), of rndX rndDir a]
  obtain so where so: "pushBlock rndX rndDir a s = Inr so"
     "stackedBlocks so = stackedBlocks s @ [a]" "gameOver so = gameOver s"
     "perfectStreak so = perfectStreak s" by blast
  have d: "\<bar>rect_x (heap s (last (stackedBlocks s))) - rect_x (heap s a)\<bar> = distance"
    using assms(6) by (simp add: abs_minus_commute)
  show ?thesis
    using assms(1-5) sp so d
    by (simp add: placeBlock_def Let_def handleGameOver_def handlePerfectPlacement_effect)
qed

theorem C5_placement_judge_witness:
  "currentBlock game_far_block = Some 1 \<and> \<not> gameOver game_far_block
   \<and> \<not> isPaused game_far_block \<and> stackedBlocks game_far_block = [0]
   \<and> rect_width (heap game_far_block 1) = 100
   \<and> \<bar>rect_x (heap game_far_block 1) - rect_x (heap game_far_block 0)\<bar> = 280
   \<and> (\<exists>s'. placeBlock 0.5 0.3 game_far_block = Inr s' \<and> gameOver s'
           \<and> stackedBlocks s' = [0])"
proof -
  have h: "currentBlock game_far_block = Some 1" "\<not> gameOver game_far_block"
    "\<not> isPaused game_far_block" "stackedBlocks game_far_block = [0]"
    "level game_far_block = 1" "rect_width (heap game_far_block 1) = 100"
    "rect_x (heap game_far_block 0) = 400" "rect_x (heap game_far_block 1) = 680"
    by (simp_all add: scene_defs game_far_block_def)
  have c: "getCurrentBlockConfig (level game_far_block)
      = Some \<lparr>cfg_width = 100, cfg_height = 50, cfg_color = 5025616, cfg_speed = 2\<rparr>"
    by (simp add: h level_one_config)
  from C5_placement_judge [OF h(1) h(2) h(3) c, of 280 "0.5" "0.3"] h
  show ?thesis by auto
qed

section \<open>The perfect streak\<close>

lemma update_perfectStreak:
  "update time s = Inr s' \<Longrightarrow> perfectStreak s' = perfectStreak s"
  by (auto simp: update_def moveBlock_def bounce_def updateGuide_def Let_def
           split: option.splits if_splits)

lemma createNewBlock_perfectStreak:
  "createNewBlock rndX rndDir s = Inr s' \<Longrightarrow> perfectStreak s' = perfectStreak s"
  by (auto simp: createNewBlock_def Let_def split: option.splits)

lemma placeBlock_perfectStreak:
  assumes "placeBlock rndX rndDir s = Inr s'"
  shows "perfectStreak s' = perfectStreak s + (if judge s = Some Perfect then 1 else 0)"
proof (cases "judge s")
  case None
  with assms show ?thesis
    by (auto simp: placeBlock_def judge_def Let_def split: option.splits if_splits)
next
  case (Some out)
  then obtain a config where a: "currentBlock s = Some a" "\<not> gameOver s" "\<not> isPaused s"
      "getCurrentBlockConfig (level s) = Some config"
    by (auto simp: judge_def split: option.splits if_splits)
  let ?p = "handlePerfectPlacement s"
  have cfg: "getCurrentBlockConfig (level ?p) = Some config"
    using a(4) by (simp add: handlePerfectPlacement_effect)
  from pushBlock_effect [OF cfg, of rndX rndDir a]
  obtain sp where sp: "pushBlock rndX rndDir a ?p = Inr sp"
     "perfectStreak sp = perfectStreak ?p" by blast
  from pushBlock_effect [OF a(4), of rndX rndDir a]
  obtain so where so: "pushBlock rndX rndDir a s = Inr so"
     "perfectStreak so = perfectStreak s" by blast
  show ?thesis
    using assms a sp so
    by (auto simp: placeBlock_def judge_def Let_def handleGameOver_def
          handlePerfectPlacement_effect split: if_splits)
qed

lemma step_perfectStreak:
  assumes "step e s = Inr s'" and "in_game e"
  shows "perfectStreak s' = perfectStreak s + (if perfect_commit e s then 1 else 0)"
proof (cases e)
  case (Frame time)
  with assms show ?thesis by (simp add: update_perfectStreak)
next
  case (Commit rndX rndDir)
  with assms show ?thesis by (simp add: placeBlock_perfectStreak)
next
  case (Timer rndX rndDir)
  with assms show ?thesis
    by (auto simp: spawnAfterDelay_def split: if_splits dest: createNewBlock_perfectStreak)
next
  case Pause
  with assms show ?thesis by (auto simp: togglePause_def)
next
  case (Restart rndX rndDir)
  with assms show ?thesis by simp
qed

text \<open>
  C4, as the code has it. Nothing in a game sets the streak back: over any run of a
  game's events (frames, commits, timers, pauses) the streak grows by the number of
  commits judged perfect, so a perfect placement adds one and an ordinary placement,
  like a miss or an ignored commit, leaves the streak as it is.
\<close>

theorem C4_streak_counts_all_perfects:
  assumes "run es s = Inr s'" and "list_all in_game es"
  shows "perfectStreak s' = perfectStreak s + perfects es s"
  using assms
proof (induction es arbitrary: s)
  case Nil
  then show ?case by simp
next
  case (Cons e es)
  from Cons.prems obtain s1 where s1: "step e s = Inr s1" "run es s1 = Inr s'"
    by (auto split: sum.splits)
  from Cons.prems have g: "in_game e" "list_all in_game es" by simp_all
  from Cons.IH [OF s1(2) g(2)] step_perfectStreak [OF s1(1) g(1)] s1(1)
  show ?case by simp
qed

text \<open>
  In \<open>game_one_block\<close> the next commit is perfect and spawns a block at \<open>x = 420\<close>; the
  commit after it is ordinary. The run is a run, has no restart, and ends with streak 1.
\<close>

theorem C4_streak_counts_all_perfects_witness:
  "run [Commit 0.528 0.3, Commit 0.5 0.3] game_one_block
     = Inr (projr (run [Commit 0.528 0.3, Commit 0.5 0.3] game_one_block))
   \<and> list_all in_game [Commit 0.528 0.3, Commit 0.5 0.3]
   \<and> perfects [Commit 0.528 0.3, Commit 0.5 0.3] game_one_block = 1
   \<and> perfectStreak (projr (run [Commit 0.528 0.3, Commit 0.5 0.3] game_one_block)) = 1"
proof -
  have r: "run [Commit 0.528 0.3, Commit 0.5 0.3] game_one_block
     = Inr (projr (run [Commit 0.528 0.3, Commit 0.5 0.3] game_one_block))"
    by (simp add: scene_defs game_one_block_def)
  have g: "list_all in_game [Commit 0.528 0.3, Commit 0.5 0.3]" by simp
  have p: "perfects [Commit 0.528 0.3, Commit 0.5 0.3] game_one_block = 1"
    by (simp add: scene_defs game_one_block_def judge_def)
  have z: "perfectStreak game_one_block = 0" by (simp add: scene_defs game_one_block_def)
  from C4_streak_counts_all_perfects [OF r g] r g p z show ?thesis by simp
qed

text \<open>
  The claim as the specification states it fails: the third placement of this game is
  ordinary (the blocks are 20 apart, the placement succeeds) and the streak, 1 before it,
  is 1 after it, not 0.
\<close>

theorem C4_ordinary_keeps_streak:
  "observe (\<lambda>s. (judge s, perfectStreak s,
                  \<bar>rect_x (heap s 1) - rect_x (heap s 2)\<bar>, currentBlock s, stackedBlocks s))
     (play 0.5 0.3 [Commit 0.5 0.3, Commit 0.528 0.3])
     = Some (Some Ordinary, 1, 20, Some 2, [0, 1])
   \<and> observe (\<lambda>s. (stackedBlocks s, gameOver s, perfectStreak s))
     (play 0.5 0.3 [Commit 0.5 0.3, Commit 0.528 0.3, Commit 0.5 0.3])
     = Some ([0, 1, 2], False, 1)"
  by (simp add: scene_defs judge_def)

section \<open>Frame updates\<close>

lemma game_start_played: "newGame 0.5 0.3 = Inr game_start"
  by (simp add: scene_defs game_start_def)

lemma update_playing:
  assumes "currentBlock s = Some a" and "\<not> gameOver s" and "\<not> isPaused s"
    and "getCurrentBlockConfig (level s) = Some config"
  shows "update time s
     = Inr (updateGuide (deltaTime time s) config a
             (bounce config a (moveBlock (deltaTime time s) a (s\<lparr>lastFrameTime := time\<rparr>))))"
  using assms by (simp add: update_def moveBlock_def Let_def)

lemma moveBlock_fields:
  "currentVelocity (moveBlock dt a s)
     = Clamp (currentVelocity s + moveSpeed s * BLOCK_ACCELERATION * dt)
             (- MAX_BLOCK_SPEED) MAX_BLOCK_SPEED"
  "rect_x (heap (moveBlock dt a s) a)
     = rect_x (heap s a) + currentVelocity (moveBlock dt a s) * dt"
  "gameWidth (moveBlock dt a s) = gameWidth s"
  "rect_width (heap (moveBlock dt a s) a) = rect_width (heap s a)"
  "placementGuide (moveBlock dt a s) = placementGuide s"
  "stackedBlocks (moveBlock dt a s) = stackedBlocks s"
  by (simp_all add: moveBlock_def Let_def)

lemma bounce_fields:
  "placementGuide (bounce config a s) = placementGuide s"
  "stackedBlocks (bounce config a s) = stackedBlocks s"
  "gameWidth (bounce config a s) = gameWidth s"
  "rect_width (heap (bounce config a s) a) = rect_width (heap s a)"
  by (simp_all add: bounce_def Let_def)

lemma updateGuide_currentVelocity:
  "currentVelocity (updateGuide dt config a s) = currentVelocity s"
  by (simp add: updateGuide_def Let_def split: option.splits)

text \<open>What the block under the guide's test does to the position, when it is entered.\<close>

lemma updateGuide_x:
  "rect_x (heap (updateGuide dt config a s) a)
    = (case placementGuide s of
         None \<Rightarrow> rect_x (heap s a)
       | Some guide \<Rightarrow>
          if stackedBlocks s = [] then rect_x (heap s a)
          else (let xl = rect_x (heap s (last (stackedBlocks s)));
                    xb = rect_x (heap s a);
                    distance = \<bar>xl - xb\<bar>
                in if distance < BLOCK_SNAP_THRESHOLD
                   then Linear xb xl ((1 - distance / BLOCK_SNAP_THRESHOLD) * 0.1 * dt)
                   else xb))"
  by (simp add: updateGuide_def Let_def split: option.splits)

lemma Clamp_bounds: "lo \<le> hi \<Longrightarrow> lo \<le> Clamp v lo hi \<and> Clamp v lo hi \<le> hi"
  by (auto simp: Clamp_def)

text \<open>
  C8, as the code has it. In a frame while playing, the velocity is incremented by
  \<open>moveSpeed * BLOCK_ACCELERATION * dt\<close>, where \<open>moveSpeed\<close> is the signed nominal speed of
  the block (the level's speed times the direction, not the direction alone), and the sum
  is clamped to \<open>[- MAX_BLOCK_SPEED, MAX_BLOCK_SPEED]\<close>. That is the frame's velocity, unless
  the block, moved by it, touches an edge: then it is multiplied by
  \<open>- BLOCK_BOUNCE_ELASTICITY\<close>.
\<close>

theorem C8_velocity_step:
  assumes "currentBlock s = Some a" and "\<not> gameOver s" and "\<not> isPaused s"
    and "getCurrentBlockConfig (level s) = Some config"
  shows "\<exists>s'. update time s = Inr s' \<and>
          (let dt = deltaTime time s;
               v = Clamp (currentVelocity s + moveSpeed s * BLOCK_ACCELERATION * dt)
                         (- MAX_BLOCK_SPEED) MAX_BLOCK_SPEED;
               xm = rect_x (heap s a) + v * dt;
               margin = cfg_width config / 2
           in currentVelocity s'
                = (if xm \<ge> gameWidth s - margin \<or> xm \<le> margin
                   then v * (- BLOCK_BOUNCE_ELASTICITY) else v))"
  by (simp add: update_playing [OF assms] updateGuide_currentVelocity bounce_def
        moveBlock_fields Let_def)

theorem C8_velocity_step_witness:
  "currentBlock game_start = Some 0 \<and> \<not> gameOver game_start \<and> \<not> isPaused game_start
   \<and> moveSpeed game_start = 2 \<and> deltaTime 1000 game_start = 1
   \<and> (\<exists>s'. update 1000 game_start = Inr s' \<and> currentVelocity s' = 0.4)"
proof -
  have h: "currentBlock game_start = Some 0" "\<not> gameOver game_start"
    "\<not> isPaused game_start" "level game_start = 1" "moveSpeed game_start = 2"
    "deltaTime 1000 game_start = 1" "currentVelocity game_start = 0"
    "rect_x (heap game_start 0) = 400" "gameWidth game_start = 800"
    by (simp_all add: scene_defs game_start_def)
  have c: "getCurrentBlockConfig (level game_start)
      = Some \<lparr>cfg_width = 100, cfg_height = 50, cfg_color = 5025616, cfg_speed = 2\<rparr>"
    by (simp add: h level_one_config)
  from C8_velocity_step [OF h(1) h(2) h(3) c, of 1000] h
  show ?thesis
    by (auto simp: Let_def Clamp_def BLOCK_ACCELERATION_def MAX_BLOCK_SPEED_def)
qed

text \<open>
  The claim as the specification states it, with the sign of the move direction in place
  of \<open>moveSpeed\<close>, fails in the first frame of a new game: \<open>moveSpeed\<close> is 2, \<open>dt\<close> is 1, and
  the velocity becomes 0.4, where the sign would give 0.2.
\<close>

theorem C8_sign_counterexample:
  "observe currentVelocity (update 1000 game_start) = Some 0.4
   \<and> Clamp (currentVelocity game_start
             + sgn (moveSpeed game_start) * BLOCK_ACCELERATION * deltaTime 1000 game_start)
           (- MAX_BLOCK_SPEED) MAX_BLOCK_SPEED = 0.2"
  by (simp add: scene_defs game_start_def)

section \<open>Bounds after a frame\<close>

lemma frame_bounds:
  assumes "currentBlock s = Some a" and "\<not> gameOver s" and "\<not> isPaused s"
    and "getCurrentBlockConfig (level s) = Some config"
    and "placementGuide s = None" and "cfg_width config \<le> gameWidth s"
  shows "\<exists>s'. update time s = Inr s'
          \<and> - MAX_BLOCK_SPEED \<le> currentVelocity s' \<and> currentVelocity s' \<le> MAX_BLOCK_SPEED
          \<and> cfg_width config / 2 \<le> rect_x (heap s' a)
          \<and> rect_x (heap s' a) \<le> gameWidth s - cfg_width config / 2
          \<and> gameWidth s' = gameWidth s \<and> rect_width (heap s' a) = rect_width (heap s a)"
proof -
  let ?dt = "deltaTime time s"
  let ?m = "moveBlock ?dt a (s\<lparr>lastFrameTime := time\<rparr>)"
  let ?b = "bounce config a ?m"
  have u: "update time s = Inr (updateGuide ?dt config a ?b)"
    by (rule update_playing [OF assms(1-4)])
  have g: "updateGuide ?dt config a ?b = ?b"
    using assms(5) by (simp add: updateGuide_def bounce_fields moveBlock_fields)
  have v: "- MAX_BLOCK_SPEED \<le> currentVelocity ?m \<and> currentVelocity ?m \<le> MAX_BLOCK_SPEED"
    unfolding moveBlock_fields by (rule Clamp_bounds) (simp add: MAX_BLOCK_SPEED_def)
  have vb: "- MAX_BLOCK_SPEED \<le> currentVelocity ?b \<and> currentVelocity ?b \<le> MAX_BLOCK_SPEED"
    using v by (auto simp: bounce_def Let_def BLOCK_BOUNCE_ELASTICITY_def MAX_BLOCK_SPEED_def)
  have w: "gameWidth ?m = gameWidth s" by (simp add: moveBlock_fields)
  have xb: "cfg_width config / 2 \<le> rect_x (heap ?b a)
          \<and> rect_x (heap ?b a) \<le> gameWidth s - cfg_width config / 2"
    using assms(6) w by (auto simp: bounce_def Let_def)
  have r: "gameWidth ?b = gameWidth s" "rect_width (heap ?b a) = rect_width (heap s a)"
    by (simp_all add: bounce_fields moveBlock_fields)
  show ?thesis using u g vb xb r by simp
qed

lemma createNewBlock_inv:
  assumes "createNewBlock rndX rndDir s = Inr s'"
    and "placementGuide s = None" and "gameWidth s = canvas_width" and "level s = 1"
  shows "scene_inv s'"
  using assms
  by (auto simp: createNewBlock_def scene_inv_def level_one_config Let_def)

lemma update_inv:
  assumes "update time s = Inr s'" and "scene_inv s"
  shows "scene_inv s'"
proof (cases "currentBlock s")
  case None
  with assms show ?thesis by (simp add: update_def)
next
  case (Some a)
  show ?thesis
  proof (cases "gameOver s \<or> isPaused s")
    case True
    with assms Some show ?thesis by (auto simp: update_def)
  next
    case False
    let ?c = "\<lparr>cfg_width = 100, cfg_height = 50, cfg_color = 5025616, cfg_speed = 2\<rparr>"
    have i: "placementGuide s = None" "gameWidth s = canvas_width" "level s = 1"
        "rect_width (heap s a) = 100"
      using assms(2) Some by (simp_all add: scene_inv_def)
    let ?dt = "deltaTime time s"
    let ?b = "bounce ?c a (moveBlock ?dt a (s\<lparr>lastFrameTime := time\<rparr>))"
    have u: "update time s = Inr (updateGuide ?dt ?c a ?b)"
      using False Some i by (intro update_playing) (simp_all add: level_one_config)
    have g: "updateGuide ?dt ?c a ?b = ?b"
      using i(1) by (simp add: updateGuide_def bounce_fields moveBlock_fields)
    have "scene_inv ?b"
      using i Some by (simp add: scene_inv_def bounce_fields moveBlock_fields)
         (simp add: bounce_def moveBlock_def Let_def)
    with u g assms(1) show ?thesis by simp
  qed
qed

lemma placeBlock_inv:
  assumes "placeBlock rndX rndDir s = Inr s'" and "scene_inv s"
  shows "scene_inv s'"
  using assms
  by (auto simp: placeBlock_def pushBlock_def handleGameOver_def handlePerfectPlacement_def
        scene_inv_def level_one_config createNewBlock_def Let_def
        split: option.splits if_splits)

lemma reachable_inv: "reachable s \<Longrightarrow> scene_inv s"
proof (induction rule: reachable.induct)
  case (start rndX rndDir s)
  then show ?case
    by (auto simp: create_def init_def constructor_def intro!: createNewBlock_inv)
next
  case (frame s time s')
  then show ?case by (auto intro: update_inv)
next
  case (commit s rndX rndDir s')
  then show ?case by (auto intro: placeBlock_inv)
next
  case (timer s rndX rndDir s')
  from timer.IH have "placementGuide s = None" "gameWidth s = canvas_width" "level s = 1"
    by (simp_all add: scene_inv_def)
  with timer.hyps show ?case
    by (intro createNewBlock_inv [of rndX rndDir "s\<lparr>pendingSpawns := pendingSpawns s - 1\<rparr>"])
       (simp_all add: spawnAfterDelay_def)
next
  case (pause s)
  then show ?case by (auto simp: scene_inv_def togglePause_def split: option.splits)
next
  case (again s rndX rndDir s')
  let ?s0 = "(init (s\<lparr>pendingSpawns := 0\<rparr>))\<lparr>gameWidth := canvas_width,
               gameHeight := canvas_height, baseY := canvas_height - GROUND_OFFSET\<rparr>"
  from again.IH have i: "placementGuide s = None"
    by (simp add: scene_inv_def)
  have c: "createNewBlock rndX rndDir ?s0 = Inr s'"
    using again.hyps by (simp add: restart_def create_def)
  have "placementGuide ?s0 = None" "gameWidth ?s0 = canvas_width" "level ?s0 = 1"
    using i by (simp_all add: init_def Let_def split: option.splits)
  with c show ?case by (rule createNewBlock_inv)
qed

text \<open>
  In a state a game can reach, the current block has the width of the current level's
  configuration, which is what \<^verbatim>\<open>placeBlock\<close> and \<^verbatim>\<open>update\<close> measure against.
\<close>

lemma reachable_block_width:
  assumes "reachable s" and "currentBlock s = Some a"
  shows "\<exists>config. getCurrentBlockConfig (level s) = Some config
           \<and> rect_width (heap s a) = cfg_width config"
  using reachable_inv [OF assms(1)] assms(2)
  by (simp add: scene_inv_def level_one_config)

text \<open>
  C9. In every state a game can reach, a frame update while playing (an active block,
  not over, not paused) returns, and after it the velocity lies within
  \<open>[- MAX_BLOCK_SPEED, MAX_BLOCK_SPEED]\<close> and the active block's \<open>x\<close> within
  \<open>[margin, gameWidth - margin]\<close>, where \<open>margin\<close> is half the block's width.
\<close>

theorem C9_frame_keeps_block_in_bounds:
  assumes "reachable s" and "currentBlock s = Some a" and "\<not> gameOver s" and "\<not> isPaused s"
  shows "\<exists>s'. update time s = Inr s'
          \<and> - MAX_BLOCK_SPEED \<le> currentVelocity s' \<and> currentVelocity s' \<le> MAX_BLOCK_SPEED
          \<and> (let margin = rect_width (heap s' a) / 2
             in margin \<le> rect_x (heap s' a) \<and> rect_x (heap s' a) \<le> gameWidth s' - margin)"
proof -
  have i: "placementGuide s = None" "gameWidth s = canvas_width" "level s = 1"
      "rect_width (heap s a) = 100"
    using reachable_inv [OF assms(1)] assms(2) by (simp_all add: scene_inv_def)
  have c: "getCurrentBlockConfig (level s)
      = Some \<lparr>cfg_width = 100, cfg_height = 50, cfg_color = 5025616, cfg_speed = 2\<rparr>"
    by (simp add: i level_one_config)
  from frame_bounds [OF assms(2-4) c i(1), of time] i
  show ?thesis by (auto simp: canvas_width_def Let_def)
qed

theorem C9_frame_keeps_block_in_bounds_witness:
  "reachable game_start \<and> currentBlock game_start = Some 0 \<and> \<not> gameOver game_start
   \<and> \<not> isPaused game_start
   \<and> (\<exists>s'. update 1000 game_start = Inr s'
          \<and> - MAX_BLOCK_SPEED \<le> currentVelocity s' \<and> currentVelocity s' \<le> MAX_BLOCK_SPEED
          \<and> (let margin = rect_width (heap s' 0) / 2
             in margin \<le> rect_x (heap s' 0) \<and> rect_x (heap s' 0) \<le> gameWidth s' - margin))"
proof -
  have g: "create canvas_width canvas_height 0.5 0.3 (init constructor) = Inr game_start"
    using game_start_played by (simp only: newGame_def)
  have r: "reachable game_start"
    by (rule reachable.start [OF _ _ _ _ g]) simp_all
  have h: "currentBlock game_start = Some 0" "\<not> gameOver game_start"
    "\<not> isPaused game_start"
    by (simp_all add: scene_defs game_start_def)
  from C9_frame_keeps_block_in_bounds [OF r h, of 1000] r h show ?thesis by simp
qed

section \<open>Snap assist\<close>

text \<open>No state a game can reach has a placement guide: no method of the scene assigns one.\<close>

lemma reachable_no_guide: "reachable s \<Longrightarrow> placementGuide s = None"
  using reachable_inv [of s] by (simp add: scene_inv_def)

text \<open>
  C7. In a frame while playing with a stack that is not empty, a block closer to the top
  block than \<^verbatim>\<open>BLOCK_SNAP_THRESHOLD\<close> is interpolated towards it. The source has the pull
  (under the comment \<^verbatim>\<open>Add snapping effect when close to perfect alignment\<close>) inside
  \<^verbatim>\<open>if (this.placementGuide && ...)\<close>, and nothing assigns \<^verbatim>\<open>placementGuide\<close>. In this game
  the first block is placed at 400 and the second spawns at 400; the first frame
  (\<open>dt = 1\<close>) moves it to 400.4, which is 0.4 from the top block, and there it stays, where
  the interpolation by \<open>(1 - 0.4 / 10) * 0.1 * 1\<close> would put it at 400.3616.
\<close>

theorem C7_no_guide_no_snap:
  "observe (\<lambda>s. (placementGuide s, gameOver s, isPaused s, stackedBlocks s, currentBlock s,
                  rect_x (heap s 0), rect_x (heap s 1), lastFrameTime s))
     (play 0.5 0.3 [Commit 0.5 0.3])
     = Some (None, False, False, [0], Some 1, 400, 400, 0)
   \<and> observe (\<lambda>s. (rect_x (heap s 0), rect_x (heap s 1)))
     (play 0.5 0.3 [Commit 0.5 0.3, Frame 1000])
     = Some (400, 400.4)
   \<and> \<bar>400 - 400.4\<bar> < BLOCK_SNAP_THRESHOLD
   \<and> Linear 400.4 400 ((1 - \<bar>400 - 400.4\<bar> / BLOCK_SNAP_THRESHOLD) * 0.1 * 1) = 400.3616"
  by (simp add: scene_defs)

section \<open>Restart\<close>

text \<open>
  C10. A restart puts all per-game state back to its defaults and keeps the high score
  only. \<^verbatim>\<open>init\<close>, under its comment \<^verbatim>\<open>// Reset all game state\<close>, assigns neither
  \<^verbatim>\<open>perfectStreak\<close> nor \<^verbatim>\<open>currentVelocity\<close>, and the restarted scene is the same object. In
  this game the second block is placed perfectly, the third is moved by one frame and
  misses; at game over the streak is 1 and the velocity 0.4, and so they are after the
  restart, next to the score, level, stack and nominal speed that were reset.
\<close>

theorem C10_restart_keeps_streak_and_velocity:
  "observe (\<lambda>s. (gameOver s, perfectStreak s, currentVelocity s))
     (play 0.5 0.3 [Commit 0.5 0.3, Commit 0.9 0.3, Frame 1000, Commit 0.5 0.3])
     = Some (True, 1, 0.4)
   \<and> observe (\<lambda>s. (score s, level s, stackedBlocks s, gameOver s, moveSpeed s, highScore s,
                    perfectStreak s, currentVelocity s))
     (play 0.5 0.3 [Commit 0.5 0.3, Commit 0.9 0.3, Frame 1000, Commit 0.5 0.3,
                    Restart 0.5 0.3])
     = Some (0, 1, [], False, 2, 0, 1, 0.4)"
  by (simp add: scene_defs)

end
